theory Spec2Isabelle
  imports Complex_Main
begin

section \<open>Python values used by the leaflet plugin\<close>

text \<open>
  The module \<^verbatim>\<open>traffic/plugins/leaflet.py\<close> turns domain objects (flights, flight
  plans, airspaces, airports, points, state vectors) into map-widget layers. Exceptions
  are values: every function that can raise returns \<open>error + 'a\<close>, with \<open>Inl\<close> the
  exception. Coordinates are Python floats that the module only moves around (it never
  computes with them); they are modelled as \<open>real\<close>.
\<close>

datatype error =
    TypeError | ValueError | AttributeError | AssertionError | KeyError | LayerException
  | TraitError

text \<open>Values passed as keyword arguments; \<open>**kwargs\<close> is a dictionary keyed by name.\<close>

datatype kwval =
    KNone | KInt int | KFloat real | KStr string | KLatLon real real | KOpaque nat

type_synonym kwargs = "string \<rightharpoonup> kwval"

text \<open>A shapely coordinate tuple \<open>(lon, lat)\<close> or \<open>(lon, lat, alt)\<close>.\<close>

type_synonym coord = "real list"

type_synonym latlon = "real \<times> real"

text \<open>\<^verbatim>\<open>(lat, lon) for (lon, lat, _) in ...\<close>: unpacking needs exactly three items.\<close>

fun unpack3 :: "coord \<Rightarrow> error + latlon" where
  "unpack3 [lon, lat, _] = Inr (lat, lon)"
| "unpack3 _ = Inl ValueError"

text \<open>\<^verbatim>\<open>(lat, lon) for (lon, lat, *_) in ...\<close>: unpacking needs at least two items.\<close>

fun unpack2_star :: "coord \<Rightarrow> error + latlon" where
  "unpack2_star (lon # lat # _) = Inr (lat, lon)"
| "unpack2_star _ = Inl ValueError"

text \<open>\<^verbatim>\<open>list(f(x) for x in xs)\<close>: items in order, the first exception propagates.\<close>

fun collect :: "('a \<Rightarrow> error + 'b) \<Rightarrow> 'a list \<Rightarrow> error + 'b list" where
  "collect f [] = Inr []"
| "collect f (x # xs) =
     (case f x of
        Inl e \<Rightarrow> Inl e
      | Inr y \<Rightarrow> (case collect f xs of Inl e \<Rightarrow> Inl e | Inr ys \<Rightarrow> Inr (y # ys)))"

section \<open>Domain objects of the core package\<close>

text \<open>
  The classes \<^verbatim>\<open>Flight\<close>, \<^verbatim>\<open>FlightPlan\<close>, \<^verbatim>\<open>Airspace\<close>, \<^verbatim>\<open>Airport\<close>,
  \<^verbatim>\<open>PointMixin\<close>, \<^verbatim>\<open>StateVectors\<close> and \<^verbatim>\<open>Traffic\<close> live outside this module. An
  object is the record of what the module reads from it: each field is the value of
  one attribute access or method call made in the source.
\<close>

record point =
  latitude :: "real option"      \<comment> \<open>\<^verbatim>\<open>point.latitude\<close>, a float or None\<close>
  longitude :: "real option"     \<comment> \<open>\<^verbatim>\<open>point.longitude\<close>\<close>
  name :: "string option"        \<comment> \<open>None: no attribute \<^verbatim>\<open>name\<close>; Some s: \<^verbatim>\<open>str(point.name)\<close> is s\<close>
  callsign :: "kwval option"     \<comment> \<open>None: no attribute \<^verbatim>\<open>callsign\<close>\<close>
  repr :: string                 \<comment> \<open>\<^verbatim>\<open>repr(point)\<close>\<close>

text \<open>
  \<^verbatim>\<open>flight.query("latitude == latitude")\<close> returns None when no sample of the flight
  has a valid latitude, and otherwise a flight; the field \<open>query_latitude\<close> is None in
  the first case and in the second holds what \<^verbatim>\<open>.at()\<close> returns on that flight: None
  or a position.
\<close>

record flight =
  flight_shape :: "coord list option"  \<comment> \<open>\<^verbatim>\<open>flight.shape\<close>: None or the coords of a LineString\<close>
  query_latitude :: "point option option"  \<comment> \<open>see above\<close>
  flight_latitude_mean :: real         \<comment> \<open>\<^verbatim>\<open>flight.data.latitude.mean()\<close>\<close>
  flight_longitude_mean :: real
  info_html :: string                  \<comment> \<open>\<^verbatim>\<open>flight._info_html()\<close>\<close>

text \<open>
  The truth value of \<^verbatim>\<open>flight.query("latitude == latitude")\<close>: None is false, a
  flight is true.
\<close>

definition valid_latitude :: "flight \<Rightarrow> bool" where
  "valid_latitude flight = (query_latitude flight \<noteq> None)"

text \<open>
  \<^verbatim>\<open>flight.query("latitude == latitude").at()\<close>: when the query returns None, the
  call of \<^verbatim>\<open>.at()\<close> on it raises AttributeError.
\<close>

definition last_position :: "flight \<Rightarrow> error + point option" where
  "last_position flight =
     (case query_latitude flight of
        None \<Rightarrow> Inl AttributeError
      | Some position \<Rightarrow> Inr position)"

text \<open>The shape of a flight plan: a LineString, or an iterable of LineStrings.\<close>

datatype fp_shape = LineString "coord list" | MultiLineString "coord list list"

record flightplan =
  flightplan_shape :: "fp_shape option"

text \<open>
  A geometry as \<^verbatim>\<open>airspace_leaflet\<close> reads it. Each of the three reads is on its
  own: the name of the geometry type is any string, the exterior may be missing, and
  the geometry may or may not be iterable.
  \<^item> \<open>geom_type\<close>: \<^verbatim>\<open>shape.geom_type\<close>;
  \<^item> \<open>exterior\<close>: \<^verbatim>\<open>shape.exterior.coords\<close>, or the exception it raises;
  \<^item> \<open>pieces\<close>: \<^verbatim>\<open>for piece in shape\<close>, the exception when the shape is not
    iterable, else for each piece in iteration order what \<^verbatim>\<open>piece.exterior.coords\<close>
    gives: the coordinates or an exception.
\<close>

record geom =
  geom_type :: string
  exterior :: "error + coord list"
  pieces :: "error + (error + coord list) list"

text \<open>\<^verbatim>\<open>airspace.flatten()\<close> returns a geometry or raises.\<close>

record airspace =
  flatten :: "error + geom"

datatype gdf = GeoDataFrame nat

record airport =
  latlon :: latlon               \<comment> \<open>\<^verbatim>\<open>airport.latlon\<close>\<close>
  runways :: gdf                 \<comment> \<open>\<^verbatim>\<open>airport._openstreetmap().query('aeroway == "runway"').data\<close>\<close>

section \<open>Widget layers\<close>

datatype HTML = HTML (html_value: string)

datatype locations = Path "latlon list" | Paths "latlon list list"

datatype layer =
    Polyline (locations: locations) (options: kwargs) (popup: "HTML option")
  | Polygon (locations: locations) (options: kwargs) (popup: "HTML option")
  | Marker (location: "real option \<times> real option") (options: kwargs) (popup: "HTML option")
  | MarkerCluster (markers: "layer list") (popup: "HTML option")
  | GeoData (geo_dataframe: gdf) (style: kwargs) (popup: "HTML option")

text \<open>
  A call \<^verbatim>\<open>C(locations=x, **kwargs)\<close> raises TypeError when \<^verbatim>\<open>kwargs\<close> holds the
  keyword that is also passed explicitly. A new layer has no popup.
\<close>

definition Polyline_init :: "locations \<Rightarrow> kwargs \<Rightarrow> error + layer" where
  "Polyline_init locs kwargs =
     (if kwargs ''locations'' \<noteq> None then Inl TypeError else Inr (Polyline locs kwargs None))"

definition Polygon_init :: "locations \<Rightarrow> kwargs \<Rightarrow> error + layer" where
  "Polygon_init locs kwargs =
     (if kwargs ''locations'' \<noteq> None then Inl TypeError else Inr (Polygon locs kwargs None))"

text \<open>
  \<^verbatim>\<open>Marker(location=loc, **kwargs)\<close>. After the check of the keywords the widget
  validates its traits and raises TraitError on a value it does not take. The title
  of a marker is a string trait: any other value, None included, is refused. What the
  widget makes of the location and of the other keywords is the parameter \<open>accepts\<close>.
\<close>

fun title_ok :: "kwval option \<Rightarrow> bool" where
  "title_ok None = True"
| "title_ok (Some (KStr _)) = True"
| "title_ok (Some _) = False"

definition Marker_init ::
    "(real option \<times> real option \<Rightarrow> kwargs \<Rightarrow> bool) \<Rightarrow> real option \<times> real option \<Rightarrow> kwargs \<Rightarrow>
     error + layer" where
  "Marker_init accepts loc kwargs =
     (if kwargs ''location'' \<noteq> None then Inl TypeError
      else if \<not> title_ok (kwargs ''title'') then Inl TraitError
      else if \<not> accepts loc kwargs then Inl TraitError
      else Inr (Marker loc kwargs None))"

text \<open>\<^verbatim>\<open>layer.popup = label\<close>: every layer has a popup trait.\<close>

fun assign_popup :: "layer \<Rightarrow> HTML \<Rightarrow> layer" where
  "assign_popup (Polyline locs kw _) h = Polyline locs kw (Some h)"
| "assign_popup (Polygon locs kw _) h = Polygon locs kw (Some h)"
| "assign_popup (Marker loc kw _) h = Marker loc kw (Some h)"
| "assign_popup (MarkerCluster ms _) h = MarkerCluster ms (Some h)"
| "assign_popup (GeoData d st _) h = GeoData d st (Some h)"

section \<open>The conversion functions\<close>

definition flight_leaflet :: "flight \<Rightarrow> kwargs \<Rightarrow> error + layer option" where
  "flight_leaflet flight kwargs =
     (case flight_shape flight of
        None \<Rightarrow> Inr None
      | Some coords \<Rightarrow>
          (let kwargs' = [''fill_opacity'' \<mapsto> KInt 0, ''weight'' \<mapsto> KInt 3] ++ kwargs in
           case collect unpack3 coords of
             Inl e \<Rightarrow> Inl e
           | Inr locs \<Rightarrow>
               (case Polyline_init (Path locs) kwargs' of
                  Inl e \<Rightarrow> Inl e
                | Inr l \<Rightarrow> Inr (Some l))))"

definition flightplan_leaflet :: "flightplan \<Rightarrow> kwargs \<Rightarrow> error + layer option" where
  "flightplan_leaflet flightplan kwargs =
     (case flightplan_shape flightplan of
        None \<Rightarrow> Inr None
      | Some shape \<Rightarrow>
          (case (case shape of
                   LineString cs \<Rightarrow>
                     (case collect unpack2_star cs of
                        Inl e \<Rightarrow> Inl e | Inr locs \<Rightarrow> Inr (Path locs))
                 | MultiLineString parts \<Rightarrow>
                     (case collect (collect unpack2_star) parts of
                        Inl e \<Rightarrow> Inl e | Inr locs \<Rightarrow> Inr (Paths locs))) of
             Inl e \<Rightarrow> Inl e
           | Inr coords \<Rightarrow>
               (let kwargs' = [''fill_opacity'' \<mapsto> KInt 0, ''weight'' \<mapsto> KInt 3] ++ kwargs in
                case Polyline_init coords kwargs' of
                  Inl e \<Rightarrow> Inl e
                | Inr l \<Rightarrow> Inr (Some l))))"

text \<open>
  \<^verbatim>\<open>list((lat, lon) for (lon, lat, *_) in x.exterior.coords)\<close>, given what
  \<^verbatim>\<open>x.exterior.coords\<close> gives.
\<close>

definition swapped_exterior :: "error + coord list \<Rightarrow> error + latlon list" where
  "swapped_exterior ext =
     (case ext of Inl e \<Rightarrow> Inl e | Inr cs \<Rightarrow> collect unpack2_star cs)"

definition airspace_leaflet :: "airspace \<Rightarrow> kwargs \<Rightarrow> error + layer" where
  "airspace_leaflet airspace kwargs =
     (case flatten airspace of
        Inl e \<Rightarrow> Inl e
      | Inr shape \<Rightarrow>
          (let kwargs' = [''weight'' \<mapsto> KInt 3] ++ kwargs in
           case (if geom_type shape = ''Polygon''
                 then (case swapped_exterior (exterior shape) of
                         Inl e \<Rightarrow> Inl e | Inr locs \<Rightarrow> Inr (Path locs))
                 else (case pieces shape of
                         Inl e \<Rightarrow> Inl e
                       | Inr ps \<Rightarrow>
                           (case collect swapped_exterior ps of
                              Inl e \<Rightarrow> Inl e | Inr locs \<Rightarrow> Inr (Paths locs)))) of
             Inl e \<Rightarrow> Inl e
           | Inr coords \<Rightarrow> Polygon_init coords kwargs'))"

definition airport_leaflet :: "airport \<Rightarrow> kwargs \<Rightarrow> error + layer" where
  "airport_leaflet airport kwargs =
     Inr (GeoData (runways airport)
            ([''color'' \<mapsto> KStr ''#79706e'', ''weight'' \<mapsto> KInt 6] ++ kwargs) None)"

text \<open>
  \<^verbatim>\<open>default = dict(); if hasattr(point, "name"): default["title"] = str(point.name)\<close>
\<close>

definition default_kwargs :: "point \<Rightarrow> kwargs" where
  "default_kwargs point =
     (case name point of
        None \<Rightarrow> Map.empty
      | Some n \<Rightarrow> [''title'' \<mapsto> KStr n])"

definition point_leaflet ::
    "(real option \<times> real option \<Rightarrow> kwargs \<Rightarrow> bool) \<Rightarrow> point \<Rightarrow> kwargs \<Rightarrow> error + layer" where
  "point_leaflet accepts point kwargs =
     (let default = default_kwargs point;
          kwargs' = default ++ kwargs in
      case Marker_init accepts (latitude point, longitude point) kwargs' of
        Inl e \<Rightarrow> Inl e
      | Inr marker \<Rightarrow> Inr (assign_popup marker (HTML (repr point))))"

text \<open>
  One marker of \<^verbatim>\<open>sv_leaflet\<close>: \<^verbatim>\<open>point_leaflet(p, title=p.callsign, **kwargs)\<close>.
  The attribute is read first; then the call fails if \<^verbatim>\<open>kwargs\<close> has a title too.
\<close>

definition sv_marker ::
    "(real option \<times> real option \<Rightarrow> kwargs \<Rightarrow> bool) \<Rightarrow> kwargs \<Rightarrow> point \<Rightarrow> error + layer" where
  "sv_marker accepts kwargs p =
     (case callsign p of
        None \<Rightarrow> Inl AttributeError
      | Some c \<Rightarrow>
          if kwargs ''title'' \<noteq> None then Inl TypeError
          else point_leaflet accepts p (kwargs(''title'' \<mapsto> c)))"

definition sv_leaflet ::
    "(real option \<times> real option \<Rightarrow> kwargs \<Rightarrow> bool) \<Rightarrow> point list \<Rightarrow> kwargs \<Rightarrow> error + layer" where
  "sv_leaflet accepts sv kwargs =
     (case collect (sv_marker accepts kwargs) sv of
        Inl e \<Rightarrow> Inl e
      | Inr point_list \<Rightarrow> Inr (MarkerCluster point_list None))"

section \<open>The load hook\<close>

text \<open>
  \<^verbatim>\<open>_onload\<close> assigns class attributes. The classes form a table from a class and
  an attribute name to the function stored there; a function is named by a token.
  \<open>Foreign\<close> stands for any attribute value that is not a function of this module.
\<close>

datatype cls =
    C_Airport | C_Airspace | C_Flight | C_FlightPlan | C_PointMixin | C_StateVectors
  | C_Traffic | C_Map

datatype func =
    F_airport_leaflet | F_airspace_leaflet | F_flight_leaflet | F_flightplan_leaflet
  | F_point_leaflet | F_sv_leaflet | F_flight_map_leaflet | F_traffic_map_leaflet
  | F_map_add_layer | Foreign nat

type_synonym namespace = "cls \<times> string \<rightharpoonup> func"

definition setattr :: "cls \<Rightarrow> string \<Rightarrow> func \<Rightarrow> namespace \<Rightarrow> namespace" where
  "setattr c a f ns = ns((c, a) \<mapsto> f)"

definition getattr :: "namespace \<Rightarrow> cls \<Rightarrow> string \<Rightarrow> func option" where
  "getattr ns c a = ns (c, a)"

definition onload :: "namespace \<Rightarrow> namespace" where
  "onload ns0 =
     (let ns1 = setattr C_Airport ''leaflet'' F_airport_leaflet ns0;
          ns2 = setattr C_Airspace ''leaflet'' F_airspace_leaflet ns1;
          ns3 = setattr C_Flight ''leaflet'' F_flight_leaflet ns2;
          ns4 = setattr C_FlightPlan ''leaflet'' F_flightplan_leaflet ns3;
          ns5 = setattr C_PointMixin ''leaflet'' F_point_leaflet ns4;
          ns6 = setattr C_StateVectors ''leaflet'' F_sv_leaflet ns5;
          ns7 = setattr C_Flight ''map_leaflet'' F_flight_map_leaflet ns6;
          ns8 = setattr C_Traffic ''map_leaflet'' F_traffic_map_leaflet ns7
      in setattr C_Map ''add_layer'' F_map_add_layer ns8)"

section \<open>The patched \<^verbatim>\<open>add_layer\<close>\<close>

text \<open>
  The element handed to \<^verbatim>\<open>add_layer\<close> is any Python value: a domain object, a
  layer, None, a \<^verbatim>\<open>FlightIterator\<close> (the finite sequence of segments it yields),
  or something else. An object of a class that derives from several of the listed
  classes is tagged by the first one.
\<close>

datatype pyval =
    PNone
  | PLayer layer
  | PAirport airport
  | PAirspace airspace
  | PFlight flight
  | PFlightPlan flightplan
  | PPoint point
  | PStateVectors "point list"
  | PFlightIterator "pyval list"
  | POther nat

text \<open>
  \<^verbatim>\<open>any(isinstance(elt, c) for c in (Airport, Airspace, Flight, FlightPlan,
  PointMixin, StateVectors))\<close>
\<close>

fun is_leaflet_class :: "pyval \<Rightarrow> bool" where
  "is_leaflet_class (PAirport _) = True"
| "is_leaflet_class (PAirspace _) = True"
| "is_leaflet_class (PFlight _) = True"
| "is_leaflet_class (PFlightPlan _) = True"
| "is_leaflet_class (PPoint _) = True"
| "is_leaflet_class (PStateVectors _) = True"
| "is_leaflet_class _ = False"

fun is_FlightIterator :: "pyval \<Rightarrow> bool" where
  "is_FlightIterator (PFlightIterator _) = True"
| "is_FlightIterator _ = False"

text \<open>
  \<open>old\<close> is \<^verbatim>\<open>_old_add_layer\<close>, the widget library's own method saved at import:
  from the state of the map and the element to an exception, or its return value and
  the new state of the map. \<open>L elt kwargs\<close> is the call \<^verbatim>\<open>elt.leaflet(**kwargs)\<close>,
  whatever method the element's class holds.
\<close>

fun map_add_layer ::
    "('m \<Rightarrow> pyval \<Rightarrow> error + pyval \<times> 'm) \<Rightarrow> (pyval \<Rightarrow> kwargs \<Rightarrow> error + pyval) \<Rightarrow>
     'm \<Rightarrow> pyval \<Rightarrow> kwargs \<Rightarrow> error + pyval \<times> 'm"
  and add_segments ::
    "('m \<Rightarrow> pyval \<Rightarrow> error + pyval \<times> 'm) \<Rightarrow> (pyval \<Rightarrow> kwargs \<Rightarrow> error + pyval) \<Rightarrow>
     'm \<Rightarrow> pyval list \<Rightarrow> kwargs \<Rightarrow> error + 'm"
where
  "map_add_layer old L m elt kwargs =
     (if is_leaflet_class elt then
        (case L elt kwargs of
           Inl e \<Rightarrow> Inl e
         | Inr layer \<Rightarrow>
             (case old m layer of
                Inl e \<Rightarrow> Inl e
              | Inr (_, m') \<Rightarrow> Inr (layer, m')))
      else
        (case elt of
           PFlightIterator segments \<Rightarrow>
             (case add_segments old L m segments kwargs of
                Inl e \<Rightarrow> Inl e
              | Inr m' \<Rightarrow> Inr (PNone, m'))
         | _ \<Rightarrow> old m elt))"
| "add_segments old L m [] kwargs = Inr m"
| "add_segments old L m (segment # rest) kwargs =
     (case map_add_layer old L m segment kwargs of
        Inl e \<Rightarrow> Inl e
      | Inr (_, m') \<Rightarrow> add_segments old L m' rest kwargs)"

section \<open>The map constructors\<close>

text \<open>
  Once the module is loaded, \<^verbatim>\<open>elt.leaflet(**kwargs)\<close> on an object of one of the
  six classes is the function that \<^verbatim>\<open>_onload\<close> stored in its class.
\<close>

fun of_optional :: "error + layer option \<Rightarrow> error + pyval" where
  "of_optional (Inl e) = Inl e"
| "of_optional (Inr None) = Inr PNone"
| "of_optional (Inr (Some l)) = Inr (PLayer l)"

fun of_layer :: "error + layer \<Rightarrow> error + pyval" where
  "of_layer (Inl e) = Inl e"
| "of_layer (Inr l) = Inr (PLayer l)"

fun leaflet ::
    "(real option \<times> real option \<Rightarrow> kwargs \<Rightarrow> bool) \<Rightarrow> pyval \<Rightarrow> kwargs \<Rightarrow> error + pyval" where
  "leaflet accepts (PAirport a) kwargs = of_layer (airport_leaflet a kwargs)"
| "leaflet accepts (PAirspace a) kwargs = of_layer (airspace_leaflet a kwargs)"
| "leaflet accepts (PFlight f) kwargs = of_optional (flight_leaflet f kwargs)"
| "leaflet accepts (PFlightPlan f) kwargs = of_optional (flightplan_leaflet f kwargs)"
| "leaflet accepts (PPoint p) kwargs = of_layer (point_leaflet accepts p kwargs)"
| "leaflet accepts (PStateVectors sv) kwargs = of_layer (sv_leaflet accepts sv kwargs)"
| "leaflet accepts _ kwargs = Inl AttributeError"

text \<open>
  A value of a \<^verbatim>\<open>highlight\<close> dictionary: an attribute name, a flight, or a callable
  on a flight. The dictionary is a list of items in iteration order.
\<close>

datatype hval = HStr string | HFlight flight | HCallable "flight \<Rightarrow> error + pyval"

datatype airport_arg = NoAirport | AirportName string | AirportObj airport

record traffic =
  flights :: "flight list"       \<comment> \<open>the flights that \<^verbatim>\<open>for flight in traffic\<close> yields\<close>
  traffic_latitude_mean :: real  \<comment> \<open>\<^verbatim>\<open>traffic.data.latitude.mean()\<close>\<close>
  traffic_longitude_mean :: real

text \<open>
  What the functions call outside this module. \<open>'m\<close> is the state of a map widget
  with all that it holds.
  \<^item> \<open>old_add_layer\<close>: \<^verbatim>\<open>_old_add_layer(m, layer)\<close>;
  \<^item> \<open>Map_init\<close>: \<^verbatim>\<open>Map(zoom=zoom, **kwargs)\<close>;
  \<^item> \<open>Marker_accepts\<close>: the trait validation of \<^verbatim>\<open>Marker\<close>, see \<open>Marker_init\<close>;
  \<^item> \<open>set_popup m l h\<close>: the map after \<^verbatim>\<open>elt.popup = HTML(); elt.popup.value = ...\<close>
    on the layer \<open>l\<close>, an object that the map may hold;
  \<^item> \<open>airports_getitem\<close>: \<^verbatim>\<open>airports[airport]\<close>;
  \<^item> \<open>Flight_getattr\<close>: \<^verbatim>\<open>getattr(Flight, value, None)\<close>.
\<close>

record 'm env =
  old_add_layer :: "'m \<Rightarrow> pyval \<Rightarrow> error + pyval \<times> 'm"
  Map_init :: "int \<Rightarrow> kwargs \<Rightarrow> error + 'm"
  Marker_accepts :: "real option \<times> real option \<Rightarrow> kwargs \<Rightarrow> bool"
  set_popup :: "'m \<Rightarrow> layer \<Rightarrow> HTML \<Rightarrow> 'm"
  airports_getitem :: "string \<Rightarrow> error + airport option"
  Flight_getattr :: "string \<Rightarrow> hval option"

text \<open>\<^verbatim>\<open>m.add_layer(elt, **kwargs)\<close> after \<^verbatim>\<open>_onload\<close>.\<close>

definition add_layer :: "'m env \<Rightarrow> 'm \<Rightarrow> pyval \<Rightarrow> kwargs \<Rightarrow> error + pyval \<times> 'm" where
  "add_layer env = map_add_layer (old_add_layer env) (leaflet (Marker_accepts env))"

text \<open>\<^verbatim>\<open>_airport = airports[airport] if isinstance(airport, str) else airport\<close>; the model writes \<open>airport0\<close> for \<^verbatim>\<open>_airport\<close>.\<close>

fun resolve_airport :: "'m env \<Rightarrow> airport_arg \<Rightarrow> error + airport option" where
  "resolve_airport env NoAirport = Inr None"
| "resolve_airport env (AirportName s) = airports_getitem env s"
| "resolve_airport env (AirportObj a) = Inr (Some a)"

text \<open>The block \<^verbatim>\<open>if "center" not in kwargs: ...\<close>, given the two means of the data.\<close>

definition with_center :: "kwargs \<Rightarrow> airport option \<Rightarrow> real \<Rightarrow> real \<Rightarrow> kwargs" where
  "with_center kwargs airport0 lat_mean lon_mean =
     (if kwargs ''center'' = None then
        (case airport0 of
           Some a \<Rightarrow> kwargs(''center'' \<mapsto> KLatLon (fst (latlon a)) (snd (latlon a)))
         | None \<Rightarrow> kwargs(''center'' \<mapsto> KLatLon lat_mean lon_mean))
      else kwargs)"

text \<open>\<^verbatim>\<open>if _airport is not None: m.add_layer(_airport)\<close>\<close>

definition add_airport :: "'m env \<Rightarrow> 'm \<Rightarrow> airport option \<Rightarrow> error + 'm" where
  "add_airport env m airport0 =
     (case airport0 of
        None \<Rightarrow> Inr m
      | Some a \<Rightarrow>
          (case add_layer env m (PAirport a) Map.empty of
             Inl e \<Rightarrow> Inl e
           | Inr (_, m') \<Rightarrow> Inr m'))"

text \<open>
  \<^verbatim>\<open>elt = m.add_layer(flight); elt.popup = HTML(); elt.popup.value = flight._info_html()\<close>.
  Assigning an attribute of None raises AttributeError. The leaflet method of a flight
  returns None or a layer, so the last case does not arise.
\<close>

definition add_with_popup :: "'m env \<Rightarrow> 'm \<Rightarrow> flight \<Rightarrow> error + 'm" where
  "add_with_popup env m flight =
     (case add_layer env m (PFlight flight) Map.empty of
        Inl e \<Rightarrow> Inl e
      | Inr (elt, m') \<Rightarrow>
          (case elt of
             PNone \<Rightarrow> Inl AttributeError
           | PLayer l \<Rightarrow> Inr (set_popup env m' l (HTML (info_html flight)))
           | _ \<Rightarrow> Inl AttributeError))"

text \<open>The loop \<^verbatim>\<open>for color, value in highlight.items(): ...\<close> for one flight.\<close>

fun highlight_items ::
    "'m env \<Rightarrow> 'm \<Rightarrow> flight \<Rightarrow> (string \<times> hval) list \<Rightarrow> error + 'm" where
  "highlight_items env m flight [] = Inr m"
| "highlight_items env m flight ((color, v) # rest) =
     (case (case v of HStr s \<Rightarrow> Flight_getattr env s | _ \<Rightarrow> Some v) of
        None \<Rightarrow> highlight_items env m flight rest
      | Some v' \<Rightarrow>
          (case (case v' of
                   HStr _ \<Rightarrow> Inl AssertionError
                 | HFlight f \<Rightarrow> Inr (PFlight f)
                 | HCallable g \<Rightarrow> g flight) of
             Inl e \<Rightarrow> Inl e
           | Inr PNone \<Rightarrow> highlight_items env m flight rest
           | Inr f \<Rightarrow>
               (case add_layer env m f [''color'' \<mapsto> KStr color] of
                  Inl e \<Rightarrow> Inl e
                | Inr (_, m') \<Rightarrow> highlight_items env m' flight rest)))"

text \<open>\<^verbatim>\<open>if highlight is None: highlight = dict()\<close>\<close>

fun highlight_dict :: "(string \<times> hval) list option \<Rightarrow> (string \<times> hval) list" where
  "highlight_dict None = []"
| "highlight_dict (Some d) = d"

text \<open>The loop \<^verbatim>\<open>for flight in traffic: ...\<close> of \<^verbatim>\<open>traffic_map_leaflet\<close>.\<close>

fun traffic_flights ::
    "'m env \<Rightarrow> 'm \<Rightarrow> flight list \<Rightarrow> (string \<times> hval) list option \<Rightarrow> error + 'm" where
  "traffic_flights env m [] highlight = Inr m"
| "traffic_flights env m (flight # rest) highlight =
     (case (if valid_latitude flight then add_with_popup env m flight else Inr m) of
        Inl e \<Rightarrow> Inl e
      | Inr m1 \<Rightarrow>
          (case highlight_items env m1 flight (highlight_dict highlight) of
             Inl e \<Rightarrow> Inl e
           | Inr m2 \<Rightarrow> traffic_flights env m2 rest highlight))"

definition traffic_map_leaflet ::
    "'m env \<Rightarrow> traffic \<Rightarrow> int \<Rightarrow> (string \<times> hval) list option \<Rightarrow> airport_arg \<Rightarrow> kwargs \<Rightarrow>
     error + 'm option" where
  "traffic_map_leaflet env traffic zoom highlight airport kwargs =
     (case resolve_airport env airport of
        Inl e \<Rightarrow> Inl e
      | Inr airport0 \<Rightarrow>
          (let kwargs' = with_center kwargs airport0
                           (traffic_latitude_mean traffic) (traffic_longitude_mean traffic) in
           case Map_init env zoom kwargs' of
             Inl e \<Rightarrow> Inl e
           | Inr m \<Rightarrow>
               (case add_airport env m airport0 of
                  Inl e \<Rightarrow> Inl e
                | Inr m1 \<Rightarrow>
                    (case traffic_flights env m1 (flights traffic) highlight of
                       Inl e \<Rightarrow> Inl e
                     | Inr m2 \<Rightarrow> Inr (Some m2)))))"

definition flight_map_leaflet ::
    "'m env \<Rightarrow> flight \<Rightarrow> int \<Rightarrow> (string \<times> hval) list option \<Rightarrow> airport_arg \<Rightarrow> kwargs \<Rightarrow>
     error + 'm option" where
  "flight_map_leaflet env flight zoom highlight airport kwargs =
     (case last_position flight of
        Inl e \<Rightarrow> Inl e
      | Inr None \<Rightarrow> Inr None
      | Inr (Some _) \<Rightarrow>
          (case resolve_airport env airport of
             Inl e \<Rightarrow> Inl e
           | Inr airport0 \<Rightarrow>
               (let kwargs' = with_center kwargs airport0
                                (flight_latitude_mean flight) (flight_longitude_mean flight) in
                case Map_init env zoom kwargs' of
                  Inl e \<Rightarrow> Inl e
                | Inr m \<Rightarrow>
                    (case add_airport env m airport0 of
                       Inl e \<Rightarrow> Inl e
                     | Inr m1 \<Rightarrow>
                         (case add_with_popup env m1 flight of
                            Inl e \<Rightarrow> Inl e
                          | Inr m2 \<Rightarrow>
                              (case highlight_items env m2 flight (highlight_dict highlight) of
                                 Inl e \<Rightarrow> Inl e
                               | Inr m3 \<Rightarrow> Inr (Some m3)))))))"

section \<open>Notions used to state the properties\<close>

text \<open>
  The pair \<open>(latitude, longitude)\<close> of a coordinate tuple whose first two items are
  the longitude and the latitude.
\<close>

definition lat_lon :: "coord \<Rightarrow> latlon" where
  "lat_lon c = (c ! 1, c ! 0)"

text \<open>The coordinate sequences of a flight plan's shape.\<close>

fun fp_parts :: "fp_shape \<Rightarrow> coord list list" where
  "fp_parts (LineString cs) = [cs]"
| "fp_parts (MultiLineString ps) = ps"

text \<open>
  What a FlightIterator brings to the map, stated with the original \<^verbatim>\<open>add_layer\<close>
  and the \<^verbatim>\<open>leaflet\<close> method only. \<open>leaves\<close> lists the elements that an element
  stands for, in order: an iterator stands for those of its segments, anything else for
  itself. \<open>add_one\<close> puts one such element on the map: the layer of its \<^verbatim>\<open>leaflet\<close>
  method, called with the keyword arguments, when it is of one of the six classes, and
  else the element itself. \<open>add_all\<close> does so for a list, each element on the map that
  the ones before have left, and stops at the first exception.
\<close>

fun leaves :: "pyval \<Rightarrow> pyval list" where
  "leaves (PFlightIterator segments) = concat (map leaves segments)"
| "leaves elt = [elt]"

definition add_one ::
    "('m \<Rightarrow> pyval \<Rightarrow> error + pyval \<times> 'm) \<Rightarrow> (pyval \<Rightarrow> kwargs \<Rightarrow> error + pyval) \<Rightarrow>
     kwargs \<Rightarrow> 'm \<Rightarrow> pyval \<Rightarrow> error + 'm" where
  "add_one old L kwargs m elt =
     (if is_leaflet_class elt then
        (case L elt kwargs of
           Inl e \<Rightarrow> Inl e
         | Inr layer \<Rightarrow>
             (case old m layer of Inl e \<Rightarrow> Inl e | Inr (r, m') \<Rightarrow> Inr m'))
      else (case old m elt of Inl e \<Rightarrow> Inl e | Inr (r, m') \<Rightarrow> Inr m'))"

fun add_all ::
    "('m \<Rightarrow> pyval \<Rightarrow> error + pyval \<times> 'm) \<Rightarrow> (pyval \<Rightarrow> kwargs \<Rightarrow> error + pyval) \<Rightarrow>
     kwargs \<Rightarrow> 'm \<Rightarrow> pyval list \<Rightarrow> error + 'm" where
  "add_all old L kwargs m [] = Inr m"
| "add_all old L kwargs m (elt # rest) =
     (case add_one old L kwargs m elt of
        Inl e \<Rightarrow> Inl e
      | Inr m' \<Rightarrow> add_all old L kwargs m' rest)"

section \<open>A small environment and concrete inputs\<close>

text \<open>
  An environment on which the functions run: a map is its zoom, its options and the
  list of what was added to it; the widget library's \<^verbatim>\<open>add_layer\<close> appends the
  element and returns None; a popup assigned to a layer shows on that layer in the
  map; a marker takes every location and every keyword that passes the checks of
  \<open>Marker_init\<close>; no airport and no attribute of \<^verbatim>\<open>Flight\<close> is known by name.
\<close>

record lmap =
  zoom :: int
  map_options :: kwargs
  layers :: "pyval list"

definition accept_all :: "real option \<times> real option \<Rightarrow> kwargs \<Rightarrow> bool" where
  "accept_all loc kwargs = True"

definition simple_env :: "lmap env" where
  "simple_env =
     \<lparr> old_add_layer = (\<lambda>m elt. Inr (PNone, m\<lparr>layers := layers m @ [elt]\<rparr>)),
       Map_init = (\<lambda>z kw. Inr \<lparr>zoom = z, map_options = kw, layers = []\<rparr>),
       Marker_accepts = accept_all,
       set_popup = (\<lambda>m l h. m\<lparr>layers :=
                      map (\<lambda>x. if x = PLayer l then PLayer (assign_popup l h) else x) (layers m)\<rparr>),
       airports_getitem = (\<lambda>s. Inr None),
       Flight_getattr = (\<lambda>s. None) \<rparr>"

definition point0 :: point where
  "point0 = \<lparr>latitude = Some 48, longitude = Some 2, name = Some ''LFPG'',
             callsign = Some (KStr ''AFR1''), repr = ''Point(48, 2)''\<rparr>"

text \<open>A flight with two valid positions.\<close>

definition flight_ok :: flight where
  "flight_ok =
     \<lparr>flight_shape = Some [[2, 48, 0], [3, 49, 1000]],
      query_latitude = Some (Some point0),
      flight_latitude_mean = 48, flight_longitude_mean = 2, info_html = ''<b>AFR1</b>''\<rparr>"

text \<open>A flight with a valid position and no shape.\<close>

definition flight_no_shape :: flight where
  "flight_no_shape =
     \<lparr>flight_shape = None, query_latitude = Some (Some point0),
      flight_latitude_mean = 48, flight_longitude_mean = 2, info_html = ''<b>AFR2</b>''\<rparr>"

text \<open>A flight with no valid latitude: the query returns None.\<close>

definition flight_no_latitude :: flight where
  "flight_no_latitude =
     \<lparr>flight_shape = None, query_latitude = None,
      flight_latitude_mean = 0, flight_longitude_mean = 2, info_html = ''<b>AFR3</b>''\<rparr>"

definition flightplan_line :: flightplan where
  "flightplan_line = \<lparr>flightplan_shape = Some (LineString [[2, 48], [3, 49, 0]])\<rparr>"

definition flightplan_empty :: flightplan where
  "flightplan_empty = \<lparr>flightplan_shape = None\<rparr>"

text \<open>An airspace that flattens to one polygon; a polygon is not iterable.\<close>

definition airspace_single :: airspace where
  "airspace_single =
     \<lparr>flatten = Inr \<lparr>geom_type = ''Polygon'',
                      exterior = Inr [[0, 45], [1, 45], [1, 46], [0, 45]],
                      pieces = Inl TypeError\<rparr>\<rparr>"

text \<open>An airspace that flattens to an iterable multi-polygon of two pieces.\<close>

definition airspace_multi :: airspace where
  "airspace_multi =
     \<lparr>flatten = Inr \<lparr>geom_type = ''MultiPolygon'',
                      exterior = Inl AttributeError,
                      pieces = Inr [Inr [[0, 45], [1, 45], [1, 46], [0, 45]],
                                    Inr [[5, 50, 0], [6, 50, 0], [6, 51, 0], [5, 50, 0]]]\<rparr>\<rparr>"

text \<open>An airspace of several pieces for which \<^verbatim>\<open>flatten()\<close> raises.\<close>

definition airspace_raising :: airspace where
  "airspace_raising = \<lparr>flatten = Inl AttributeError\<rparr>"

text \<open>An airspace that flattens to a shape that is no polygon and cannot be iterated.\<close>

definition airspace_not_iterable :: airspace where
  "airspace_not_iterable =
     \<lparr>flatten = Inr \<lparr>geom_type = ''GeometryCollection'',
                      exterior = Inl AttributeError,
                      pieces = Inl TypeError\<rparr>\<rparr>"

text \<open>A traffic whose only flight has no valid latitude.\<close>

definition traffic_skipped :: traffic where
  "traffic_skipped = \<lparr>flights = [flight_no_latitude],
                       traffic_latitude_mean = 48, traffic_longitude_mean = 2\<rparr>"

text \<open>A traffic whose only flight has a valid position and no shape.\<close>

definition traffic_no_shape :: traffic where
  "traffic_no_shape = \<lparr>flights = [flight_no_shape],
                        traffic_latitude_mean = 48, traffic_longitude_mean = 2\<rparr>"

text \<open>A traffic of a flight with no valid latitude and a flight with two positions.\<close>

definition traffic_mixed :: traffic where
  "traffic_mixed = \<lparr>flights = [flight_no_latitude, flight_ok],
                     traffic_latitude_mean = 48, traffic_longitude_mean = 2\<rparr>"

section \<open>Coordinate conversion\<close>

lemma collect_unpack3:
  "\<forall>c\<in>set cs. length c = 3 \<Longrightarrow> collect unpack3 cs = Inr (map lat_lon cs)"
proof (induction cs)
  case Nil
  then show ?case by simp
next
  case (Cons c cs)
  then obtain lon lat alt where "c = [lon, lat, alt]"
    by (cases c rule: unpack3.cases) auto
  with Cons show ?case by (simp add: lat_lon_def)
qed

lemma collect_unpack2_star:
  "\<forall>c\<in>set cs. 2 \<le> length c \<Longrightarrow> collect unpack2_star cs = Inr (map lat_lon cs)"
proof (induction cs)
  case Nil
  then show ?case by simp
next
  case (Cons c cs)
  then obtain lon lat r where "c = lon # lat # r"
    by (cases c rule: unpack2_star.cases) auto
  with Cons show ?case by (simp add: lat_lon_def)
qed

lemma collect_swapped_exterior:
  "\<forall>ring\<in>set rs. \<forall>c\<in>set ring. 2 \<le> length c \<Longrightarrow>
   collect swapped_exterior (map Inr rs) = Inr (map (map lat_lon) rs)"
  by (induction rs) (simp_all add: swapped_exterior_def collect_unpack2_star)

lemma collect_collect_unpack2_star:
  "\<forall>part\<in>set ps. \<forall>c\<in>set part. 2 \<le> length c \<Longrightarrow>
   collect (collect unpack2_star) ps = Inr (map (map lat_lon) ps)"
  by (induction ps) (simp_all add: collect_unpack2_star)

text \<open>A coordinate tuple of the wrong length stops the conversion of a flight.\<close>

lemma flight_leaflet_ValueError:
  "flight_shape f = Some ([lon, lat] # cs) \<Longrightarrow> flight_leaflet f kw = Inl ValueError"
  by (simp add: flight_leaflet_def)

text \<open>A keyword that the function passes itself cannot be given by the caller.\<close>

lemma flight_leaflet_TypeError:
  "flight_shape f = Some [] \<Longrightarrow> kw ''locations'' = Some v \<Longrightarrow>
   flight_leaflet f kw = Inl TypeError"
  by (simp add: flight_leaflet_def Polyline_init_def)

section \<open>The load hook: C2 and C3\<close>

text \<open>
  Claim C2. After \<^verbatim>\<open>_onload\<close> has run, whatever the classes held before, each of
  \<^verbatim>\<open>Airport\<close>, \<^verbatim>\<open>Airspace\<close>, \<^verbatim>\<open>Flight\<close>, \<^verbatim>\<open>FlightPlan\<close>, \<^verbatim>\<open>PointMixin\<close> and
  \<^verbatim>\<open>StateVectors\<close> has an attribute \<^verbatim>\<open>leaflet\<close>, equal to \<^verbatim>\<open>airport_leaflet\<close>,
  \<^verbatim>\<open>airspace_leaflet\<close>, \<^verbatim>\<open>flight_leaflet\<close>, \<^verbatim>\<open>flightplan_leaflet\<close>,
  \<^verbatim>\<open>point_leaflet\<close> and \<^verbatim>\<open>sv_leaflet\<close> in this order.
\<close>

theorem onload_leaflet_attributes:
  "getattr (onload ns) C_Airport ''leaflet'' = Some F_airport_leaflet \<and>
   getattr (onload ns) C_Airspace ''leaflet'' = Some F_airspace_leaflet \<and>
   getattr (onload ns) C_Flight ''leaflet'' = Some F_flight_leaflet \<and>
   getattr (onload ns) C_FlightPlan ''leaflet'' = Some F_flightplan_leaflet \<and>
   getattr (onload ns) C_PointMixin ''leaflet'' = Some F_point_leaflet \<and>
   getattr (onload ns) C_StateVectors ''leaflet'' = Some F_sv_leaflet"
  by (simp add: onload_def setattr_def getattr_def)

text \<open>
  Claim C3. After \<^verbatim>\<open>_onload\<close> has run, \<^verbatim>\<open>Flight.map_leaflet\<close> is
  \<^verbatim>\<open>flight_map_leaflet\<close>, \<^verbatim>\<open>Traffic.map_leaflet\<close> is \<^verbatim>\<open>traffic_map_leaflet\<close>, and
  \<^verbatim>\<open>Map.add_layer\<close> is \<^verbatim>\<open>map_add_layer\<close>, whatever it was before.
\<close>

theorem onload_map_attributes:
  "getattr (onload ns) C_Flight ''map_leaflet'' = Some F_flight_map_leaflet \<and>
   getattr (onload ns) C_Traffic ''map_leaflet'' = Some F_traffic_map_leaflet \<and>
   getattr (onload ns) C_Map ''add_layer'' = Some F_map_add_layer"
  by (simp add: onload_def setattr_def getattr_def)

text \<open>The hook touches no other attribute.\<close>

lemma onload_frame:
  "a \<noteq> ''leaflet'' \<Longrightarrow> a \<noteq> ''map_leaflet'' \<Longrightarrow> a \<noteq> ''add_layer'' \<Longrightarrow>
   getattr (onload ns) c a = getattr ns c a"
  by (simp add: onload_def setattr_def getattr_def)

section \<open>Polylines of flights and flight plans: C4 and C6\<close>

lemma flight_leaflet_None_iff:
  "flight_leaflet f kw = Inr None \<longleftrightarrow> flight_shape f = None"
  by (auto simp: flight_leaflet_def Let_def split: option.splits sum.splits)

lemma flightplan_leaflet_None_iff:
  "flightplan_leaflet p kw = Inr None \<longleftrightarrow> flightplan_shape p = None"
  by (auto simp: flightplan_leaflet_def Let_def split: option.splits sum.splits fp_shape.splits)

text \<open>
  Claim C4. \<^verbatim>\<open>flight_leaflet\<close> returns None exactly when the shape of the flight is
  None; otherwise it returns a Polyline, for a shape whose coordinates are triples and
  keyword arguments without \<^verbatim>\<open>locations\<close> (the keyword the function passes itself).
  \<^verbatim>\<open>flightplan_leaflet\<close> returns None exactly when the shape of the flight plan is
  None; otherwise it returns a Polyline, for coordinates of at least two items and
  keyword arguments without \<^verbatim>\<open>locations\<close>.
\<close>

theorem leaflet_None_iff_shape_None:
  "(flight_leaflet f kw = Inr None \<longleftrightarrow> flight_shape f = None) \<and>
   (\<forall>cs. flight_shape f = Some cs \<and> (\<forall>c\<in>set cs. length c = 3) \<and> kw ''locations'' = None \<longrightarrow>
      (\<exists>locs opts. flight_leaflet f kw = Inr (Some (Polyline locs opts None)))) \<and>
   (flightplan_leaflet p kw = Inr None \<longleftrightarrow> flightplan_shape p = None) \<and>
   (\<forall>sh. flightplan_shape p = Some sh \<and>
         (\<forall>part\<in>set (fp_parts sh). \<forall>c\<in>set part. 2 \<le> length c) \<and>
         kw ''locations'' = None \<longrightarrow>
      (\<exists>locs opts. flightplan_leaflet p kw = Inr (Some (Polyline locs opts None))))"
proof (intro conjI allI impI)
  show "flight_leaflet f kw = Inr None \<longleftrightarrow> flight_shape f = None"
    by (rule flight_leaflet_None_iff)
  show "flightplan_leaflet p kw = Inr None \<longleftrightarrow> flightplan_shape p = None"
    by (rule flightplan_leaflet_None_iff)
next
  fix cs
  assume "flight_shape f = Some cs \<and> (\<forall>c\<in>set cs. length c = 3) \<and> kw ''locations'' = None"
  then show "\<exists>locs opts. flight_leaflet f kw = Inr (Some (Polyline locs opts None))"
    by (simp add: flight_leaflet_def Let_def collect_unpack3 Polyline_init_def map_add_def)
next
  fix sh
  assume a: "flightplan_shape p = Some sh \<and>
    (\<forall>part\<in>set (fp_parts sh). \<forall>c\<in>set part. 2 \<le> length c) \<and> kw ''locations'' = None"
  show "\<exists>locs opts. flightplan_leaflet p kw = Inr (Some (Polyline locs opts None))"
  proof (cases sh)
    case (LineString cs)
    with a show ?thesis
      by (simp add: flightplan_leaflet_def Let_def collect_unpack2_star Polyline_init_def
          map_add_def)
  next
    case (MultiLineString ps)
    with a show ?thesis
      by (simp add: flightplan_leaflet_def Let_def collect_collect_unpack2_star
          Polyline_init_def map_add_def)
  qed
qed

theorem leaflet_None_iff_shape_None_witness:
  "flight_leaflet flight_no_shape Map.empty = Inr None \<and>
   (\<exists>locs opts. flight_leaflet flight_ok Map.empty = Inr (Some (Polyline locs opts None))) \<and>
   flightplan_leaflet flightplan_empty Map.empty = Inr None \<and>
   (\<exists>locs opts. flightplan_leaflet flightplan_line Map.empty =
      Inr (Some (Polyline locs opts None)))"
  using leaflet_None_iff_shape_None [of flight_no_shape Map.empty flightplan_empty]
    leaflet_None_iff_shape_None [of flight_ok Map.empty flightplan_line]
  by (simp add: flight_no_shape_def flight_ok_def flightplan_empty_def flightplan_line_def)

text \<open>
  Claim C6. For a flight whose shape is a LineString of (longitude, latitude,
  altitude) triples, the Polyline that \<^verbatim>\<open>flight_leaflet\<close> returns has as locations
  the coordinate sequence of the shape, each triple mapped to (latitude, longitude), in
  the same order and of the same length. \<^verbatim>\<open>flightplan_leaflet\<close> does the same for a
  flight plan whose shape is a LineString, for tuples of two items or more. The keyword
  arguments do not hold \<^verbatim>\<open>locations\<close>.
\<close>

theorem leaflet_locations:
  "(flight_shape f = Some cs \<and> (\<forall>c\<in>set cs. length c = 3) \<and> kw ''locations'' = None \<longrightarrow>
      (\<exists>opts. flight_leaflet f kw = Inr (Some (Polyline (Path (map lat_lon cs)) opts None)))) \<and>
   (flightplan_shape p = Some (LineString cs) \<and> (\<forall>c\<in>set cs. 2 \<le> length c) \<and>
    kw ''locations'' = None \<longrightarrow>
      (\<exists>opts. flightplan_leaflet p kw =
         Inr (Some (Polyline (Path (map lat_lon cs)) opts None))))"
  by (simp add: flight_leaflet_def flightplan_leaflet_def Let_def collect_unpack3
      collect_unpack2_star Polyline_init_def map_add_def)

theorem leaflet_locations_witness:
  "(\<exists>opts. flight_leaflet flight_ok [''color'' \<mapsto> KStr ''red''] =
      Inr (Some (Polyline (Path [(48, 2), (49, 3)]) opts None))) \<and>
   (\<exists>opts. flightplan_leaflet flightplan_line [''color'' \<mapsto> KStr ''red''] =
      Inr (Some (Polyline (Path [(48, 2), (49, 3)]) opts None)))"
  using leaflet_locations [of flight_ok "[[2, 48, 0], [3, 49, 1000]]"
      "[''color'' \<mapsto> KStr ''red'']" flightplan_line]
    leaflet_locations [of flight_ok "[[2, 48], [3, 49, 0]]"
      "[''color'' \<mapsto> KStr ''red'']" flightplan_line]
  by (simp add: flight_ok_def flightplan_line_def lat_lon_def)

section \<open>Polygons of airspaces: C7\<close>

text \<open>
  The claim as stated fails: \<^verbatim>\<open>airspace_leaflet\<close> does not return a Polygon for
  every airspace. When \<^verbatim>\<open>airspace.flatten()\<close> raises, as it does for an airspace of
  several pieces, the exception leaves the function; and a flattened shape whose
  \<^verbatim>\<open>geom_type\<close> is not \<^verbatim>\<open>"Polygon"\<close> and that cannot be iterated makes the
  \<^verbatim>\<open>for piece in shape\<close> raise TypeError.
\<close>

theorem airspace_leaflet_counterexample:
  "airspace_leaflet airspace_raising Map.empty = Inl AttributeError \<and>
   airspace_leaflet airspace_not_iterable Map.empty = Inl TypeError"
  by (simp add: airspace_leaflet_def airspace_raising_def airspace_not_iterable_def)

text \<open>
  Claim C7, amended. \<^verbatim>\<open>airspace_leaflet\<close> never returns None. An exception of
  \<^verbatim>\<open>airspace.flatten()\<close> propagates. When \<^verbatim>\<open>flatten()\<close> returns a shape whose
  \<^verbatim>\<open>geom_type\<close> is \<^verbatim>\<open>"Polygon"\<close>, the function returns a Polygon whose locations are
  the exterior coordinates of the shape, each tuple swapped to (latitude, longitude).
  When the \<^verbatim>\<open>geom_type\<close> is anything else and the shape can be iterated into pieces
  that each have an exterior, it returns a Polygon whose locations are the list of
  these swapped exteriors, one per piece, in iteration order; when the shape cannot be
  iterated, or a shape named \<^verbatim>\<open>"Polygon"\<close> has no exterior, the exception
  propagates. In both cases of a Polygon the options are the
  default weight 3 under the caller's keyword arguments; the coordinate tuples have two
  items or more and the keyword arguments do not hold \<^verbatim>\<open>locations\<close>.
\<close>

theorem airspace_leaflet_polygon:
  "leaflet accepts (PAirspace a) kw \<noteq> Inr PNone \<and>
   (\<forall>e. flatten a = Inl e \<longrightarrow> airspace_leaflet a kw = Inl e) \<and>
   (\<forall>sh ext. flatten a = Inr sh \<and> geom_type sh = ''Polygon'' \<and> exterior sh = Inr ext \<and>
        (\<forall>c\<in>set ext. 2 \<le> length c) \<and> kw ''locations'' = None \<longrightarrow>
      airspace_leaflet a kw =
        Inr (Polygon (Path (map lat_lon ext)) ([''weight'' \<mapsto> KInt 3] ++ kw) None)) \<and>
   (\<forall>sh rs. flatten a = Inr sh \<and> geom_type sh \<noteq> ''Polygon'' \<and> pieces sh = Inr (map Inr rs) \<and>
        (\<forall>ring\<in>set rs. \<forall>c\<in>set ring. 2 \<le> length c) \<and> kw ''locations'' = None \<longrightarrow>
      airspace_leaflet a kw =
        Inr (Polygon (Paths (map (map lat_lon) rs)) ([''weight'' \<mapsto> KInt 3] ++ kw) None)) \<and>
   (\<forall>sh e. flatten a = Inr sh \<and> geom_type sh \<noteq> ''Polygon'' \<and> pieces sh = Inl e \<longrightarrow>
      airspace_leaflet a kw = Inl e) \<and>
   (\<forall>sh e. flatten a = Inr sh \<and> geom_type sh = ''Polygon'' \<and> exterior sh = Inl e \<longrightarrow>
      airspace_leaflet a kw = Inl e)"
proof (intro conjI allI impI)
  show "leaflet accepts (PAirspace a) kw \<noteq> Inr PNone"
    by (cases "airspace_leaflet a kw") simp_all
next
  fix e
  assume "flatten a = Inl e"
  then show "airspace_leaflet a kw = Inl e"
    by (simp add: airspace_leaflet_def)
next
  fix sh ext
  assume "flatten a = Inr sh \<and> geom_type sh = ''Polygon'' \<and> exterior sh = Inr ext \<and>
        (\<forall>c\<in>set ext. 2 \<le> length c) \<and> kw ''locations'' = None"
  then show "airspace_leaflet a kw =
        Inr (Polygon (Path (map lat_lon ext)) ([''weight'' \<mapsto> KInt 3] ++ kw) None)"
    by (simp add: airspace_leaflet_def Let_def swapped_exterior_def collect_unpack2_star
        Polygon_init_def map_add_def)
next
  fix sh rs
  assume "flatten a = Inr sh \<and> geom_type sh \<noteq> ''Polygon'' \<and> pieces sh = Inr (map Inr rs) \<and>
        (\<forall>ring\<in>set rs. \<forall>c\<in>set ring. 2 \<le> length c) \<and> kw ''locations'' = None"
  then show "airspace_leaflet a kw =
        Inr (Polygon (Paths (map (map lat_lon) rs)) ([''weight'' \<mapsto> KInt 3] ++ kw) None)"
    by (simp add: airspace_leaflet_def Let_def collect_swapped_exterior
        Polygon_init_def map_add_def)
next
  fix sh e
  assume "flatten a = Inr sh \<and> geom_type sh \<noteq> ''Polygon'' \<and> pieces sh = Inl e"
  then show "airspace_leaflet a kw = Inl e"
    by (simp add: airspace_leaflet_def)
next
  fix sh e
  assume "flatten a = Inr sh \<and> geom_type sh = ''Polygon'' \<and> exterior sh = Inl e"
  then show "airspace_leaflet a kw = Inl e"
    by (simp add: airspace_leaflet_def swapped_exterior_def)
qed

theorem airspace_leaflet_polygon_witness:
  "airspace_leaflet airspace_single Map.empty =
     Inr (Polygon (Path [(45, 0), (45, 1), (46, 1), (45, 0)]) [''weight'' \<mapsto> KInt 3] None) \<and>
   airspace_leaflet airspace_multi Map.empty =
     Inr (Polygon (Paths [[(45, 0), (45, 1), (46, 1), (45, 0)],
                          [(50, 5), (50, 6), (51, 6), (50, 5)]]) [''weight'' \<mapsto> KInt 3] None)"
proof
  show "airspace_leaflet airspace_single Map.empty =
     Inr (Polygon (Path [(45, 0), (45, 1), (46, 1), (45, 0)]) [''weight'' \<mapsto> KInt 3] None)"
    using airspace_leaflet_polygon [of accept_all airspace_single Map.empty]
    by (simp add: airspace_single_def lat_lon_def)
next
  have "\<forall>sh rs. flatten airspace_multi = Inr sh \<and> geom_type sh \<noteq> ''Polygon'' \<and>
        pieces sh = Inr (map Inr rs) \<and>
        (\<forall>ring\<in>set rs. \<forall>c\<in>set ring. 2 \<le> length c) \<and> Map.empty ''locations'' = None \<longrightarrow>
      airspace_leaflet airspace_multi Map.empty =
        Inr (Polygon (Paths (map (map lat_lon) rs)) ([''weight'' \<mapsto> KInt 3] ++ Map.empty) None)"
    using airspace_leaflet_polygon [of accept_all airspace_multi Map.empty] by blast
  from this [rule_format, of _ "[[[0, 45], [1, 45], [1, 46], [0, 45]],
                                 [[5, 50, 0], [6, 50, 0], [6, 51, 0], [5, 50, 0]]]"]
  show "airspace_leaflet airspace_multi Map.empty =
     Inr (Polygon (Paths [[(45, 0), (45, 1), (46, 1), (45, 0)],
                          [(50, 5), (50, 6), (51, 6), (50, 5)]]) [''weight'' \<mapsto> KInt 3] None)"
    by (simp add: airspace_multi_def lat_lon_def)
qed

section \<open>Markers of points: C10\<close>

lemma title_ok_merged:
  "title_ok (kw ''title'') \<Longrightarrow> title_ok ((default_kwargs p ++ kw) ''title'')"
  by (cases "kw ''title''"; cases "name p") (simp_all add: default_kwargs_def map_add_def)

text \<open>
  The claim as stated fails for a keyword argument that the marker does not take: with
  \<^verbatim>\<open>title=5\<close> the caller's value does not override the default title, the
  constructor raises TraitError and no Marker is returned.
\<close>

theorem point_leaflet_counterexample:
  "point_leaflet accept_all point0 [''title'' \<mapsto> KInt 5] = Inl TraitError"
  by (simp add: point0_def point_leaflet_def Marker_init_def default_kwargs_def)

text \<open>
  Claim C10, amended. For a point whose latitude and longitude are not None and keyword
  arguments that the Marker constructor takes (no \<^verbatim>\<open>location\<close>, which the function
  passes itself; a \<^verbatim>\<open>title\<close> that is a string, if one is given; a location and
  keywords that pass the validation of the widget), \<^verbatim>\<open>point_leaflet\<close> returns a
  Marker located at (latitude, longitude) whose popup is an HTML widget with value
  \<^verbatim>\<open>repr(point)\<close>. If the point has a name and no \<^verbatim>\<open>title\<close> is passed, the title
  of the marker is \<^verbatim>\<open>str(point.name)\<close>; every keyword argument of the caller is an
  option of the marker, so it overrides the default. A \<^verbatim>\<open>title\<close> that is not a
  string, None included, makes the function raise TraitError.
\<close>

theorem point_leaflet_marker:
  "(latitude p = Some la \<and> longitude p = Some lo \<and> kw ''location'' = None \<and>
    title_ok (kw ''title'') \<and> accepts (Some la, Some lo) (default_kwargs p ++ kw) \<longrightarrow>
      (\<exists>opts. point_leaflet accepts p kw =
                Inr (Marker (Some la, Some lo) opts (Some (HTML (repr p)))) \<and>
         (\<forall>n. name p = Some n \<and> kw ''title'' = None \<longrightarrow> opts ''title'' = Some (KStr n)) \<and>
         (\<forall>k v. kw k = Some v \<longrightarrow> opts k = Some v))) \<and>
   (kw ''location'' = None \<and> \<not> title_ok (kw ''title'') \<longrightarrow>
      point_leaflet accepts p kw = Inl TraitError)"
proof (intro conjI impI)
  assume a: "latitude p = Some la \<and> longitude p = Some lo \<and> kw ''location'' = None \<and>
    title_ok (kw ''title'') \<and> accepts (Some la, Some lo) (default_kwargs p ++ kw)"
  then have t: "title_ok ((default_kwargs p ++ kw) ''title'')"
    by (simp add: title_ok_merged)
  have l: "(default_kwargs p ++ kw) ''location'' = None"
    using a by (cases "name p") (simp_all add: default_kwargs_def map_add_def)
  have r: "point_leaflet accepts p kw =
      Inr (Marker (Some la, Some lo) (default_kwargs p ++ kw) (Some (HTML (repr p))))"
    using a t l by (simp add: point_leaflet_def Let_def Marker_init_def)
  have "\<forall>n. name p = Some n \<and> kw ''title'' = None \<longrightarrow>
      (default_kwargs p ++ kw) ''title'' = Some (KStr n)"
    by (simp add: default_kwargs_def map_add_def)
  moreover have "\<forall>k v. kw k = Some v \<longrightarrow> (default_kwargs p ++ kw) k = Some v"
    by (simp add: map_add_def)
  ultimately show "\<exists>opts. point_leaflet accepts p kw =
                Inr (Marker (Some la, Some lo) opts (Some (HTML (repr p)))) \<and>
         (\<forall>n. name p = Some n \<and> kw ''title'' = None \<longrightarrow> opts ''title'' = Some (KStr n)) \<and>
         (\<forall>k v. kw k = Some v \<longrightarrow> opts k = Some v)"
    using r by blast
next
  assume a: "kw ''location'' = None \<and> \<not> title_ok (kw ''title'')"
  then obtain v where v: "kw ''title'' = Some v" by (cases "kw ''title''") auto
  have l: "(default_kwargs p ++ kw) ''location'' = None"
    using a by (cases "name p") (simp_all add: default_kwargs_def map_add_def)
  have "(default_kwargs p ++ kw) ''title'' = Some v"
    using v by (simp add: map_add_def)
  with a v l show "point_leaflet accepts p kw = Inl TraitError"
    by (simp add: point_leaflet_def Let_def Marker_init_def)
qed

theorem point_leaflet_marker_witness:
  "point_leaflet accept_all point0 Map.empty =
     Inr (Marker (Some 48, Some 2) [''title'' \<mapsto> KStr ''LFPG'']
            (Some (HTML ''Point(48, 2)''))) \<and>
   point_leaflet accept_all point0 [''title'' \<mapsto> KStr ''Paris''] =
     Inr (Marker (Some 48, Some 2) [''title'' \<mapsto> KStr ''Paris'']
            (Some (HTML ''Point(48, 2)''))) \<and>
   point_leaflet accept_all point0 [''title'' \<mapsto> KNone] = Inl TraitError"
  using point_leaflet_marker [of point0 48 2 Map.empty accept_all]
    point_leaflet_marker [of point0 48 2 "[''title'' \<mapsto> KStr ''Paris'']" accept_all]
    point_leaflet_marker [of point0 48 2 "[''title'' \<mapsto> KNone]" accept_all]
  by (simp add: point0_def point_leaflet_def Marker_init_def default_kwargs_def accept_all_def)

section \<open>The patched \<^verbatim>\<open>add_layer\<close>: C1 and C9\<close>

lemma is_leaflet_class_iff:
  "is_leaflet_class elt \<longleftrightarrow>
     elt \<in> range PAirport \<union> range PAirspace \<union> range PFlight \<union> range PFlightPlan \<union>
           range PPoint \<union> range PStateVectors"
  by (cases elt) auto

text \<open>
  Claim C1. The test of \<^verbatim>\<open>map_add_layer\<close> holds exactly for an Airport, an
  Airspace, a Flight, a FlightPlan, a PointMixin or a StateVectors. For such an element
  the function calls the element's \<^verbatim>\<open>leaflet\<close> method with the keyword arguments,
  hands the resulting layer to the original \<^verbatim>\<open>add_layer\<close> and returns that layer
  (an exception of either call propagates). For an element of none of these types that
  is not a FlightIterator, the result is that of the original \<^verbatim>\<open>add_layer\<close> on the
  element itself.
\<close>

theorem map_add_layer_dispatch:
  "(is_leaflet_class elt \<longleftrightarrow>
      elt \<in> range PAirport \<union> range PAirspace \<union> range PFlight \<union> range PFlightPlan \<union>
            range PPoint \<union> range PStateVectors) \<and>
   (is_leaflet_class elt \<longrightarrow>
      map_add_layer old L m elt kw =
        (case L elt kw of
           Inl e \<Rightarrow> Inl e
         | Inr layer \<Rightarrow>
             (case old m layer of Inl e \<Rightarrow> Inl e | Inr (r, m') \<Rightarrow> Inr (layer, m')))) \<and>
   (\<not> is_leaflet_class elt \<and> \<not> is_FlightIterator elt \<longrightarrow>
      map_add_layer old L m elt kw = old m elt)"
proof (intro conjI impI)
  show "is_leaflet_class elt \<longleftrightarrow>
      elt \<in> range PAirport \<union> range PAirspace \<union> range PFlight \<union> range PFlightPlan \<union>
            range PPoint \<union> range PStateVectors"
    by (rule is_leaflet_class_iff)
next
  assume "is_leaflet_class elt"
  then show "map_add_layer old L m elt kw =
        (case L elt kw of
           Inl e \<Rightarrow> Inl e
         | Inr layer \<Rightarrow>
             (case old m layer of Inl e \<Rightarrow> Inl e | Inr (r, m') \<Rightarrow> Inr (layer, m')))"
    by simp
next
  assume "\<not> is_leaflet_class elt \<and> \<not> is_FlightIterator elt"
  then show "map_add_layer old L m elt kw = old m elt"
    by (cases elt) simp_all
qed

theorem map_add_layer_dispatch_witness:
  "map_add_layer (old_add_layer simple_env) (leaflet accept_all)
       \<lparr>zoom = 7, map_options = Map.empty, layers = []\<rparr> (PPoint point0) Map.empty =
     Inr (PLayer (Marker (Some 48, Some 2) [''title'' \<mapsto> KStr ''LFPG'']
                    (Some (HTML ''Point(48, 2)''))),
          \<lparr>zoom = 7, map_options = Map.empty,
           layers = [PLayer (Marker (Some 48, Some 2) [''title'' \<mapsto> KStr ''LFPG'']
                               (Some (HTML ''Point(48, 2)'')))]\<rparr>) \<and>
   map_add_layer (old_add_layer simple_env) (leaflet accept_all)
       \<lparr>zoom = 7, map_options = Map.empty, layers = []\<rparr> (POther 0) Map.empty =
     Inr (PNone, \<lparr>zoom = 7, map_options = Map.empty, layers = [POther 0]\<rparr>)"
  using map_add_layer_dispatch [of "PPoint point0" "old_add_layer simple_env"
      "leaflet accept_all" "\<lparr>zoom = 7, map_options = Map.empty, layers = []\<rparr>" Map.empty]
    map_add_layer_dispatch [of "POther 0" "old_add_layer simple_env"
      "leaflet accept_all" "\<lparr>zoom = 7, map_options = Map.empty, layers = []\<rparr>" Map.empty]
  by (simp add: simple_env_def point0_def point_leaflet_def Marker_init_def
      default_kwargs_def accept_all_def)

lemma add_all_append:
  "add_all old L kw m (xs @ ys) =
     (case add_all old L kw m xs of Inl e \<Rightarrow> Inl e | Inr m' \<Rightarrow> add_all old L kw m' ys)"
  by (induction xs arbitrary: m) (simp_all split: sum.splits)

lemma leaves_not_iterator:
  "\<not> is_FlightIterator elt \<Longrightarrow> leaves elt = [elt]"
  by (cases elt) simp_all

lemma not_iterator_if_leaflet_class:
  "is_leaflet_class elt \<Longrightarrow> \<not> is_FlightIterator elt"
  by (cases elt) simp_all

text \<open>
  The map that \<^verbatim>\<open>map_add_layer\<close> leaves is the one that \<open>add_all\<close> builds from the
  elements the argument stands for; the loop over segments does the same for a list.
\<close>

lemma map_add_layer_leaves:
  "(case map_add_layer old L m elt kw of Inl e \<Rightarrow> Inl e | Inr (r, m') \<Rightarrow> Inr m') =
     add_all old L kw m (leaves elt)"
  and add_segments_leaves:
  "add_segments old L m segments kw = add_all old L kw m (concat (map leaves segments))"
proof (induction old L m elt kw and old L m segments kw rule: map_add_layer_add_segments.induct)
  case (1 old L m elt kwargs)
  show ?case
  proof (cases "is_leaflet_class elt")
    case True
    then show ?thesis
      by (simp add: leaves_not_iterator not_iterator_if_leaflet_class add_one_def
          split: sum.splits prod.splits)
  next
    case False
    show ?thesis
    proof (cases elt)
      case (PFlightIterator segments)
      with 1 False show ?thesis
        by (simp split: sum.splits)
    qed (simp_all add: add_one_def split: sum.splits prod.splits)
  qed
next
  case (2 old L m kwargs)
  show ?case by simp
next
  case (3 old L m segment rest kwargs)
  show ?case
  proof (cases "map_add_layer old L m segment kwargs")
    case (Inl e)
    with "3.IH"(1) have "add_all old L kwargs m (leaves segment) = Inl e"
      by (simp del: map_add_layer.simps)
    with Inl show ?thesis
      by (simp add: add_all_append del: map_add_layer.simps)
  next
    case (Inr p)
    obtain r m' where p: "p = (r, m')" by (cases p)
    from "3.IH"(1) Inr p have "add_all old L kwargs m (leaves segment) = Inr m'"
      by (simp del: map_add_layer.simps)
    moreover from "3.IH"(2) Inr p
    have "add_segments old L m' rest kwargs =
        add_all old L kwargs m' (concat (map leaves rest))"
      by (simp del: map_add_layer.simps)
    ultimately show ?thesis
      using Inr p by (simp add: add_all_append del: map_add_layer.simps)
  qed
qed

text \<open>
  Claim C9. On a FlightIterator, \<^verbatim>\<open>map_add_layer\<close> adds each segment that the
  iterator yields, in order and with the same keyword arguments: the map it returns is
  the one obtained by handing to the original \<^verbatim>\<open>add_layer\<close>, one after the other,
  the layer that the \<^verbatim>\<open>leaflet\<close> method of each segment makes from these keyword
  arguments (for a segment that is itself an iterator, its own segments in its place).
  The value it returns is None, not a layer. An exception of the \<^verbatim>\<open>leaflet\<close> method
  or of the original \<^verbatim>\<open>add_layer\<close> propagates and ends the loop. The second
  statement is the case of an iterator that yields flights.
\<close>

theorem map_add_layer_FlightIterator:
  "map_add_layer old L m (PFlightIterator segments) kw =
     (case add_all old L kw m (concat (map leaves segments)) of
        Inl e \<Rightarrow> Inl e
      | Inr m' \<Rightarrow> Inr (PNone, m')) \<and>
   map_add_layer old L m (PFlightIterator (map PFlight fs)) kw =
     (case add_all old L kw m (map PFlight fs) of
        Inl e \<Rightarrow> Inl e
      | Inr m' \<Rightarrow> Inr (PNone, m'))"
proof -
  have *: "\<And>segs. map_add_layer old L m (PFlightIterator segs) kw =
     (case add_all old L kw m (concat (map leaves segs)) of
        Inl e \<Rightarrow> Inl e
      | Inr m' \<Rightarrow> Inr (PNone, m'))"
    by (simp add: add_segments_leaves del: add_segments.simps)
  have "concat (map leaves (map PFlight fs)) = map PFlight fs"
    by (induction fs) simp_all
  with * [of segments] * [of "map PFlight fs"] show ?thesis by simp
qed

text \<open>
  One flight in an iterator: its layer is made with the keyword arguments and handed
  to the original \<^verbatim>\<open>add_layer\<close>.
\<close>

lemma add_all_one_flight:
  "add_all old L kw m [PFlight f] =
     (case L (PFlight f) kw of
        Inl e \<Rightarrow> Inl e
      | Inr layer \<Rightarrow> (case old m layer of Inl e \<Rightarrow> Inl e | Inr (r, m') \<Rightarrow> Inr m'))"
  by (simp add: add_one_def split: sum.splits prod.splits)

text \<open>A run: two segments of one flight, added in order; the result is None.\<close>

lemma map_add_layer_FlightIterator_run:
  "map_add_layer (old_add_layer simple_env) (leaflet accept_all)
       \<lparr>zoom = 7, map_options = Map.empty, layers = []\<rparr>
       (PFlightIterator [PFlight flight_ok, PFlight flight_ok]) [''color'' \<mapsto> KStr ''red''] =
     Inr (PNone,
          \<lparr>zoom = 7, map_options = Map.empty,
           layers = [PLayer (Polyline (Path [(48, 2), (49, 3)])
                       [''fill_opacity'' \<mapsto> KInt 0, ''weight'' \<mapsto> KInt 3,
                        ''color'' \<mapsto> KStr ''red''] None),
                     PLayer (Polyline (Path [(48, 2), (49, 3)])
                       [''fill_opacity'' \<mapsto> KInt 0, ''weight'' \<mapsto> KInt 3,
                        ''color'' \<mapsto> KStr ''red''] None)]\<rparr>)"
  by (simp add: simple_env_def flight_ok_def flight_leaflet_def Polyline_init_def)

section \<open>The map of one flight: C5\<close>

text \<open>
  The function returns None exactly when the query returns a flight whose \<^verbatim>\<open>.at()\<close>
  is None. When the query itself returns None, no sample having a valid latitude, line
  89 calls \<^verbatim>\<open>.at()\<close> on None and the function raises instead of returning None.
\<close>

lemma flight_map_leaflet_None_iff:
  "flight_map_leaflet env f z h a kw = Inr None \<longleftrightarrow> query_latitude f = Some None"
  by (auto simp: flight_map_leaflet_def last_position_def Let_def
      split: option.splits sum.splits)

lemma flight_map_leaflet_no_latitude:
  "query_latitude f = None \<Longrightarrow> flight_map_leaflet env f z h a kw = Inl AttributeError"
  by (simp add: flight_map_leaflet_def last_position_def)

text \<open>
  The layer of a flight with no shape is None, and \<^verbatim>\<open>elt.popup = HTML()\<close> on None
  raises (unless the original \<^verbatim>\<open>add_layer\<close> has raised on None before).
\<close>

lemma add_with_popup_no_shape:
  "flight_shape f = None \<Longrightarrow> \<exists>e. add_with_popup env m f = Inl e"
  by (simp add: add_with_popup_def add_layer_def flight_leaflet_def split: sum.splits)

lemma flight_map_leaflet_raises:
  assumes "flight_shape f = None" and "query_latitude f = Some (Some p)"
  shows "\<exists>e. flight_map_leaflet env f z h a kw = Inl e"
proof -
  have p: "last_position f = Inr (Some p)"
    using assms(2) by (simp add: last_position_def)
  have *: "\<And>m. \<exists>e. add_with_popup env m f = Inl e"
    using assms(1) by (rule add_with_popup_no_shape)
  show ?thesis
  proof (cases "resolve_airport env a")
    case (Inl e)
    then show ?thesis by (simp add: flight_map_leaflet_def p)
  next
    case (Inr ao)
    show ?thesis
    proof (cases "Map_init env z
        (with_center kw ao (flight_latitude_mean f) (flight_longitude_mean f))")
      case (Inl e)
      then show ?thesis by (simp add: flight_map_leaflet_def p Inr)
    next
      case m: (Inr m)
      show ?thesis
      proof (cases "add_airport env m ao")
        case (Inl e)
        then show ?thesis by (simp add: flight_map_leaflet_def p Inr m)
      next
        case m1: (Inr m1)
        from * [of m1] obtain e where "add_with_popup env m1 f = Inl e" by blast
        then show ?thesis by (simp add: flight_map_leaflet_def p Inr m m1)
      qed
    qed
  qed
qed

text \<open>With the small environment the exception is the AttributeError of the popup.\<close>

lemma flight_map_leaflet_no_shape_run:
  "flight_map_leaflet simple_env flight_no_shape 7 None NoAirport Map.empty =
     Inl AttributeError"
  by (simp add: flight_map_leaflet_def last_position_def flight_no_shape_def simple_env_def
      with_center_def add_airport_def add_with_popup_def add_layer_def flight_leaflet_def)

text \<open>A flight with a shape gets its map, with the popup on its layer.\<close>

lemma flight_map_leaflet_run:
  "flight_map_leaflet simple_env flight_ok 7 None NoAirport Map.empty =
     Inr (Some \<lparr>zoom = 7, map_options = [''center'' \<mapsto> KLatLon 48 2],
                layers = [PLayer (Polyline (Path [(48, 2), (49, 3)])
                            [''fill_opacity'' \<mapsto> KInt 0, ''weight'' \<mapsto> KInt 3]
                            (Some (HTML ''<b>AFR1</b>'')))]\<rparr>)"
  by (simp add: flight_map_leaflet_def last_position_def flight_ok_def simple_env_def
      with_center_def add_airport_def add_with_popup_def add_layer_def flight_leaflet_def
      Polyline_init_def)

text \<open>
  Claim C5. \<^verbatim>\<open>flight_map_leaflet\<close> should return None when the flight has no valid
  position and a Map otherwise. The flight \<open>flight_no_shape\<close> has a valid position and
  no shape: for it the function returns neither None nor a Map but raises, in every
  environment and for all other arguments.
\<close>

theorem flight_map_leaflet_no_shape:
  "\<forall>env zoom highlight airport kwargs.
     \<exists>e. flight_map_leaflet env flight_no_shape zoom highlight airport kwargs = Inl e"
  by (intro allI flight_map_leaflet_raises [of _ point0]) (simp_all add: flight_no_shape_def)

section \<open>The map of a traffic: C8\<close>

lemma traffic_map_leaflet_not_None:
  "traffic_map_leaflet env t z h a kw \<noteq> Inr None"
  by (simp add: traffic_map_leaflet_def Let_def split: sum.splits)

text \<open>
  A flight with no valid latitude gets no layer and no popup and ends nothing: the
  loop goes on with the highlight entries and the next flight.
\<close>

lemma traffic_flights_skip:
  "\<not> valid_latitude f \<Longrightarrow>
   traffic_flights env m (f # rest) h =
     (case highlight_items env m f (highlight_dict h) of
        Inl e \<Rightarrow> Inl e
      | Inr m' \<Rightarrow> traffic_flights env m' rest h)"
  by simp

lemma traffic_flights_filter:
  "highlight_dict h = [] \<Longrightarrow>
   traffic_flights env m fs h = traffic_flights env m (filter valid_latitude fs) h"
  by (induction fs arbitrary: m) (simp_all split: sum.splits)

text \<open>
  Apart from the flights with a valid latitude and no shape, the function returns a
  Map: when every flight with a valid latitude has a shape of triples, no highlight and
  no airport is given, and the constructor of the map and the original
  \<^verbatim>\<open>add_layer\<close> do not raise.
\<close>

lemma add_with_popup_returns:
  assumes "flight_shape f = Some cs" and "\<forall>c\<in>set cs. length c = 3"
    and "\<forall>m x. \<exists>r m'. old_add_layer env m x = Inr (r, m')"
  shows "\<exists>m'. add_with_popup env m f = Inr m'"
proof -
  let ?l = "Polyline (Path (map lat_lon cs))
      [''fill_opacity'' \<mapsto> KInt 0, ''weight'' \<mapsto> KInt 3] None"
  have "flight_leaflet f Map.empty = Inr (Some ?l)"
    using assms(1,2) by (simp add: flight_leaflet_def collect_unpack3 Polyline_init_def)
  moreover from assms(3) obtain r m' where "old_add_layer env m (PLayer ?l) = Inr (r, m')"
    by blast
  ultimately show ?thesis
    by (simp add: add_with_popup_def add_layer_def)
qed

lemma traffic_flights_returns:
  assumes "\<forall>m x. \<exists>r m'. old_add_layer env m x = Inr (r, m')"
    and "highlight_dict h = []"
    and "\<forall>f\<in>set fs. valid_latitude f \<longrightarrow>
           (\<exists>cs. flight_shape f = Some cs \<and> (\<forall>c\<in>set cs. length c = 3))"
  shows "\<exists>m'. traffic_flights env m fs h = Inr m'"
  using assms(3)
proof (induction fs arbitrary: m)
  case Nil
  then show ?case by simp
next
  case (Cons f fs)
  show ?case
  proof (cases "valid_latitude f")
    case True
    with Cons.prems obtain cs where "flight_shape f = Some cs" "\<forall>c\<in>set cs. length c = 3"
      by auto
    from add_with_popup_returns [OF this assms(1), of m]
    obtain m1 where "add_with_popup env m f = Inr m1" by blast
    with True assms(2) Cons.IH [of m1] Cons.prems show ?thesis by simp
  next
    case False
    with assms(2) Cons.IH [of m] Cons.prems show ?thesis by simp
  qed
qed

lemma traffic_map_leaflet_returns_Map:
  assumes "Map_init env z
      (with_center kw None (traffic_latitude_mean t) (traffic_longitude_mean t)) = Inr m0"
    and "\<forall>m x. \<exists>r m'. old_add_layer env m x = Inr (r, m')"
    and "highlight_dict h = []"
    and "\<forall>f\<in>set (flights t). valid_latitude f \<longrightarrow>
           (\<exists>cs. flight_shape f = Some cs \<and> (\<forall>c\<in>set cs. length c = 3))"
  shows "\<exists>m. traffic_map_leaflet env t z h NoAirport kw = Inr (Some m)"
proof -
  from traffic_flights_returns [OF assms(2,3,4), of m0]
  obtain m' where "traffic_flights env m0 (flights t) h = Inr m'" by blast
  with assms(1) show ?thesis
    by (simp add: traffic_map_leaflet_def add_airport_def)
qed

text \<open>A run: the flight with no valid latitude is skipped, the other one is drawn.\<close>

lemma traffic_map_leaflet_run:
  "traffic_map_leaflet simple_env traffic_mixed 7 None NoAirport Map.empty =
     Inr (Some \<lparr>zoom = 7, map_options = [''center'' \<mapsto> KLatLon 48 2],
                layers = [PLayer (Polyline (Path [(48, 2), (49, 3)])
                            [''fill_opacity'' \<mapsto> KInt 0, ''weight'' \<mapsto> KInt 3]
                            (Some (HTML ''<b>AFR1</b>'')))]\<rparr>)"
  by (simp add: traffic_map_leaflet_def traffic_mixed_def simple_env_def
      flight_no_latitude_def flight_ok_def valid_latitude_def with_center_def add_airport_def
      add_with_popup_def add_layer_def flight_leaflet_def Polyline_init_def)

lemma traffic_map_leaflet_skipped_run:
  "traffic_map_leaflet simple_env traffic_skipped 7 None NoAirport Map.empty =
     Inr (Some \<lparr>zoom = 7, map_options = [''center'' \<mapsto> KLatLon 48 2], layers = []\<rparr>)"
  by (simp add: traffic_map_leaflet_def traffic_skipped_def simple_env_def
      flight_no_latitude_def valid_latitude_def with_center_def add_airport_def)

text \<open>
  The same missing check as in \<^verbatim>\<open>flight_map_leaflet\<close>: a flight with a valid
  latitude and no shape makes \<^verbatim>\<open>elt.popup = HTML()\<close> raise on None.
\<close>

lemma traffic_flights_head_raises:
  "valid_latitude f \<Longrightarrow> flight_shape f = None \<Longrightarrow>
   \<exists>e. traffic_flights env m (f # rest) h = Inl e"
  using add_with_popup_no_shape [of f env m] by auto

lemma traffic_map_leaflet_raises:
  assumes "\<And>m. \<exists>e. traffic_flights env m (flights t) h = Inl e"
  shows "\<exists>e. traffic_map_leaflet env t z h a kw = Inl e"
proof (cases "resolve_airport env a")
  case (Inl e)
  then show ?thesis by (simp add: traffic_map_leaflet_def)
next
  case (Inr ao)
  show ?thesis
  proof (cases "Map_init env z
      (with_center kw ao (traffic_latitude_mean t) (traffic_longitude_mean t))")
    case (Inl e)
    then show ?thesis by (simp add: traffic_map_leaflet_def Inr)
  next
    case m: (Inr m)
    show ?thesis
    proof (cases "add_airport env m ao")
      case (Inl e)
      then show ?thesis by (simp add: traffic_map_leaflet_def Inr m)
    next
      case m1: (Inr m1)
      from assms [of m1] obtain e where "traffic_flights env m1 (flights t) h = Inl e"
        by blast
      then show ?thesis by (simp add: traffic_map_leaflet_def Inr m m1)
    qed
  qed
qed

text \<open>With the small environment the exception is the AttributeError of the popup.\<close>

lemma traffic_map_leaflet_no_shape_run:
  "traffic_map_leaflet simple_env traffic_no_shape 7 None NoAirport Map.empty =
     Inl AttributeError"
  by (simp add: traffic_map_leaflet_def traffic_no_shape_def simple_env_def
      flight_no_shape_def valid_latitude_def with_center_def add_airport_def
      add_with_popup_def add_layer_def flight_leaflet_def)

text \<open>
  Claim C8. \<^verbatim>\<open>traffic_map_leaflet\<close> should always return a Map. The only flight of
  \<open>traffic_no_shape\<close> has a valid latitude and no shape: for this traffic the function
  returns no Map but raises, in every environment and for all other arguments.
\<close>

theorem traffic_map_leaflet_no_shape:
  "\<forall>env zoom highlight airport kwargs.
     \<exists>e. traffic_map_leaflet env traffic_no_shape zoom highlight airport kwargs = Inl e"
proof (intro allI traffic_map_leaflet_raises)
  fix env :: "'a env" and highlight and m :: 'a
  have "valid_latitude flight_no_shape" and "flight_shape flight_no_shape = None"
    by (simp_all add: flight_no_shape_def valid_latitude_def)
  then show "\<exists>e. traffic_flights env m (flights traffic_no_shape) highlight = Inl e"
    unfolding traffic_no_shape_def traffic.simps
    by (rule traffic_flights_head_raises)
qed

end
